theory Spec2Isabelle
  imports Main "HOL-Library.Word"
begin

section \<open>importlib\_resources: opening a resource of a package\<close>

text \<open>
  The module \<^verbatim>\<open>importlib_resources/__init__.py\<close> has three functions:
  \<^verbatim>\<open>_get_package\<close>, \<^verbatim>\<open>_normalize_path\<close> and \<^verbatim>\<open>open\<close>. They are embedded below as
  HOL functions. A Python exception is a value of the type \<open>exn\<close>, and a
  function that may raise returns \<open>exn + 'a\<close> with \<open>Inl\<close> for the exception.
  The calls that \<^verbatim>\<open>open\<close> makes to its collaborators (the import system and the
  loader's \<^verbatim>\<open>get_data\<close>) are returned as a list next to the result, in the order
  in which they are made.
\<close>

subsection \<open>Values\<close>

text \<open>
  \<^verbatim>\<open>Path = Union[str, os.PathLike]\<close>: a path argument is a plain string or an
  object whose \<^verbatim>\<open>__fspath__\<close> gives a string. \<^verbatim>\<open>os.fspath\<close> returns a string as
  it is and calls \<^verbatim>\<open>__fspath__\<close> on anything else.
\<close>

datatype path = Str string | PathLike string

fun fspath :: "path \<Rightarrow> string" where
  "fspath (Str s) = s"
| "fspath (PathLike s) = s"

text \<open>
  The text of an exception: the format string of the source, with the value
  that \<^verbatim>\<open>{!r}\<close> formats kept as it is.
\<close>

datatype message =
    is_absolute path                   \<comment> \<open>\<^verbatim>\<open>"{!r} is absolute".format(path)\<close>\<close>
  | attempts_to_traverse path          \<comment> \<open>\<^verbatim>\<open>"{!r} attempts to traverse past package".format(path)\<close>\<close>
  | is_not_a_package string            \<comment> \<open>\<^verbatim>\<open>"{!r} is not a package".format(package_name)\<close>\<close>
  | host_text string                      \<comment> \<open>a message of the host runtime\<close>

datatype exn =
    ValueError message
  | TypeError message
  | AttributeError message
  | ModuleNotFoundError message
  | FileNotFoundError message
  | PermissionError message

type_synonym bytes = "8 word list"

text \<open>
  What the source reads of a module: \<^verbatim>\<open>module.__spec__.origin\<close>,
  \<^verbatim>\<open>module.__spec__.submodule_search_locations\<close> (\<^verbatim>\<open>None\<close> for a module that is
  not a package) and \<^verbatim>\<open>module.__spec__.loader.get_data\<close>. A module has a spec,
  an origin that is a string and a loader with \<^verbatim>\<open>get_data\<close>, as the collaborator
  contract of the specification says; \<^verbatim>\<open>get_data\<close> returns bytes or raises.
\<close>

record loader =
  get_data :: "string \<Rightarrow> exn + bytes"

record module_spec =
  origin :: string
  submodule_search_locations :: "string list option"
  loader :: loader

record module =
  spec :: module_spec

text \<open>
  The first argument of \<^verbatim>\<open>open\<close> is annotated \<^verbatim>\<open>str\<close>; Python does not enforce
  the annotation, and the tests of the repository also pass a module object.
\<close>

datatype package_ref = Name string | Handle module

text \<open>
  The host runtime: what importing a name gives, and the current working
  directory that \<^verbatim>\<open>os.path.abspath\<close> reads.
\<close>

record host =
  modules :: "string \<Rightarrow> exn + module"
  getcwd :: string

datatype call = ImportModule package_ref | GetData string

subsection \<open>The standard library functions that the source calls\<close>

text \<open>
  \<^verbatim>\<open>str.startswith\<close>, \<^verbatim>\<open>str.endswith\<close>, \<^verbatim>\<open>str.split\<close>, \<^verbatim>\<open>str.join\<close> and
  \<^verbatim>\<open>str.rstrip\<close>.
\<close>

definition startswith :: "string \<Rightarrow> string \<Rightarrow> bool" where
  "startswith s p = (take (length p) s = p)"

definition endswith :: "string \<Rightarrow> string \<Rightarrow> bool" where
  "endswith s p = (length p \<le> length s \<and> drop (length s - length p) s = p)"

fun str_split :: "char \<Rightarrow> string \<Rightarrow> string list" where
  "str_split sep [] = [[]]"
| "str_split sep (c # cs) =
     (if c = sep then [] # str_split sep cs
      else (case str_split sep cs of [] \<Rightarrow> [[c]] | w # ws \<Rightarrow> (c # w) # ws))"

fun str_join :: "string \<Rightarrow> string list \<Rightarrow> string" where
  "str_join sep [] = []"
| "str_join sep [w] = w"
| "str_join sep (w # v # ws) = w @ sep @ str_join sep (v # ws)"

definition rstrip :: "char \<Rightarrow> string \<Rightarrow> string" where
  "rstrip sep s = rev (dropWhile (\<lambda>c. c = sep) (rev s))"

text \<open>
  \<^verbatim>\<open>os.path\<close> on a POSIX platform (\<^verbatim>\<open>posixpath\<close>), with the separator \<^verbatim>\<open>/\<close>.
  \<^verbatim>\<open>isabs\<close>, \<^verbatim>\<open>join\<close> of two paths, \<^verbatim>\<open>dirname\<close>, \<^verbatim>\<open>normpath\<close> and \<^verbatim>\<open>abspath\<close>
  follow the library's code line by line.
\<close>

definition sep :: char where
  "sep = CHR ''/''"

definition isabs :: "string \<Rightarrow> bool" where
  "isabs s = startswith s [sep]"

definition join :: "string \<Rightarrow> string \<Rightarrow> string" where
  "join a b =
     (if startswith b [sep] then b
      else if a = [] \<or> endswith a [sep] then a @ b
      else a @ [sep] @ b)"

definition dirname :: "string \<Rightarrow> string" where
  "dirname p =
     (let i = length p - length (takeWhile (\<lambda>c. c \<noteq> sep) (rev p));
          head = take i p
      in if head \<noteq> [] \<and> head \<noteq> replicate (length head) sep
         then rstrip sep head else head)"

text \<open>
  The loop of \<^verbatim>\<open>normpath\<close> over the components, with the list \<^verbatim>\<open>new_comps\<close> as
  an accumulator. \<open>initial_slashes\<close> is 0, 1 or 2. The source appends the
  component when
  \<^verbatim>\<open>comp != dotdot or (not initial_slashes and not new_comps) or (new_comps and new_comps[-1] == dotdot)\<close>;
  the three alternatives are tested here in the same order.
\<close>

fun normpath_comps :: "nat \<Rightarrow> string list \<Rightarrow> string list \<Rightarrow> string list" where
  "normpath_comps initial_slashes [] new_comps = new_comps"
| "normpath_comps initial_slashes (c # comps) new_comps =
     (if c = [] \<or> c = ''.''
      then normpath_comps initial_slashes comps new_comps
      else if c = ''..''
      then (if initial_slashes = 0 \<and> new_comps = []
            then normpath_comps initial_slashes comps (new_comps @ [c])
            else if new_comps \<noteq> [] \<and> last new_comps = ''..''
            then normpath_comps initial_slashes comps (new_comps @ [c])
            else if new_comps \<noteq> []
            then normpath_comps initial_slashes comps (butlast new_comps)
            else normpath_comps initial_slashes comps new_comps)
      else normpath_comps initial_slashes comps (new_comps @ [c]))"

definition normpath :: "string \<Rightarrow> string" where
  "normpath p =
     (if p = [] then ''.''
      else
        let initial_slashes =
              (if startswith p [sep]
               then (if startswith p [sep, sep] \<and> \<not> startswith p [sep, sep, sep]
                     then 2 else 1)
               else 0);
            comps = normpath_comps initial_slashes (str_split sep p) [];
            joined = replicate initial_slashes sep @ str_join [sep] comps
        in if joined = [] then ''.'' else joined)"

definition abspath :: "string \<Rightarrow> string \<Rightarrow> string" where
  "abspath cwd p = normpath (if isabs p then p else join cwd p)"

text \<open>
  \<^verbatim>\<open>importlib.import_module(name)\<close> begins with \<^verbatim>\<open>name.startswith('.')\<close>. Given
  a module object instead of a string, that attribute lookup raises
  \<^verbatim>\<open>AttributeError\<close>; given a string, the host's import system decides.
\<close>

definition import_module :: "host \<Rightarrow> package_ref \<Rightarrow> exn + module" where
  "import_module h name =
     (case name of
        Name n \<Rightarrow> modules h n
      | Handle m \<Rightarrow> Inl (AttributeError (host_text ''module has no attribute startswith'')))"

text \<open>
  \<^verbatim>\<open>io.BytesIO(data)\<close>: a buffer and a position, which starts at 0. \<^verbatim>\<open>read()\<close>
  returns the bytes from the position to the end and moves the position there,
  \<^verbatim>\<open>seek(n)\<close> sets the position, \<^verbatim>\<open>tell()\<close> and \<^verbatim>\<open>getvalue()\<close> read the state.
\<close>

record bytes_io =
  buffer :: bytes
  pos :: nat

definition BytesIO :: "bytes \<Rightarrow> bytes_io" where
  "BytesIO data = \<lparr>buffer = data, pos = 0\<rparr>"

definition tell :: "bytes_io \<Rightarrow> nat" where
  "tell s = pos s"

definition seek :: "bytes_io \<Rightarrow> nat \<Rightarrow> bytes_io" where
  "seek s n = s\<lparr>pos := n\<rparr>"

definition read :: "bytes_io \<Rightarrow> bytes \<times> bytes_io" where
  "read s = (drop (pos s) (buffer s), s\<lparr>pos := max (pos s) (length (buffer s))\<rparr>)"

subsection \<open>The functions of the module\<close>

text \<open>
  The argument that \<^verbatim>\<open>_get_package\<close> formats into its message. The line is
  reached only after \<^verbatim>\<open>import_module\<close> has returned, that is with a name; the
  text for a module object is a placeholder.
\<close>

fun format_name :: "package_ref \<Rightarrow> string" where
  "format_name (Name n) = n"
| "format_name (Handle m) = ''<module>''"

definition get_package :: "host \<Rightarrow> package_ref \<Rightarrow> exn + module" where
  "get_package h package_name =
     (case import_module h package_name of
        Inl e \<Rightarrow> Inl e
      | Inr module \<Rightarrow>
          if submodule_search_locations (spec module) = None
          then Inl (TypeError (is_not_a_package (format_name package_name)))
          else Inr module)"

definition normalize_path :: "path \<Rightarrow> exn + string" where
  "normalize_path path =
     (if isabs (fspath path) then Inl (ValueError (is_absolute path))
      else
        let normalized_path = normpath (fspath path)
        in if startswith normalized_path ''..''
           then Inl (ValueError (attempts_to_traverse path))
           else Inr normalized_path)"

definition open_resource :: "host \<Rightarrow> package_ref \<Rightarrow> path \<Rightarrow> call list \<times> (exn + bytes_io)" where
  "open_resource h package_name path =
     (case normalize_path path of
        Inl e \<Rightarrow> ([], Inl e)
      | Inr normalized_path \<Rightarrow>
          (case get_package h package_name of
             Inl e \<Rightarrow> ([ImportModule package_name], Inl e)
           | Inr package \<Rightarrow>
               let package_path = dirname (abspath (getcwd h) (origin (spec package)));
                   full_path = join package_path normalized_path
               in (case get_data (loader (spec package)) full_path of
                     Inl e \<Rightarrow> ([ImportModule package_name, GetData full_path], Inl e)
                   | Inr data \<Rightarrow>
                       ([ImportModule package_name, GetData full_path],
                        Inr (BytesIO data)))))"

subsection \<open>Observing a result\<close>

text \<open>
  The class of an exception, and what a caller can observe of a result: the
  class of the exception raised, or the bytes that reading the returned stream
  gives.
\<close>

fun error_kind :: "exn \<Rightarrow> string" where
  "error_kind (ValueError m) = ''ValueError''"
| "error_kind (TypeError m) = ''TypeError''"
| "error_kind (AttributeError m) = ''AttributeError''"
| "error_kind (ModuleNotFoundError m) = ''ModuleNotFoundError''"
| "error_kind (FileNotFoundError m) = ''FileNotFoundError''"
| "error_kind (PermissionError m) = ''PermissionError''"

definition outcome :: "exn + bytes_io \<Rightarrow> string + bytes" where
  "outcome r = (case r of Inl e \<Rightarrow> Inl (error_kind e) | Inr s \<Rightarrow> Inr (fst (read s)))"

subsection \<open>A host with one package and one plain module\<close>

text \<open>
  The package \<^verbatim>\<open>data\<close> lies in \<^verbatim>\<open>/site/data\<close> and holds the resource
  \<^verbatim>\<open>utf-8.file\<close>; the module \<^verbatim>\<open>util\<close> is the file \<^verbatim>\<open>/site/util.py\<close>, and a file
  \<^verbatim>\<open>utf-8.file\<close> lies next to it. Each loader raises \<^verbatim>\<open>FileNotFoundError\<close> for
  any other location.
\<close>

definition utf8_file :: bytes where
  "utf8_file = [0x48, 0x65, 0x6C, 0x6C, 0x6F, 0x0A]"

definition data_loader :: loader where
  "data_loader =
     \<lparr>get_data = (\<lambda>location.
        if location = ''/site/data/utf-8.file'' then Inr utf8_file
        else Inl (FileNotFoundError (host_text location)))\<rparr>"

definition data_package :: module where
  "data_package =
     \<lparr>spec = \<lparr>origin = ''/site/data/__init__.py'',
              submodule_search_locations = Some [''/site/data''],
              loader = data_loader\<rparr>\<rparr>"

definition util_loader :: loader where
  "util_loader =
     \<lparr>get_data = (\<lambda>location.
        if location = ''/site/utf-8.file'' then Inr utf8_file
        else Inl (FileNotFoundError (host_text location)))\<rparr>"

definition util_module :: module where
  "util_module =
     \<lparr>spec = \<lparr>origin = ''/site/util.py'',
              submodule_search_locations = None,
              loader = util_loader\<rparr>\<rparr>"

definition test_host :: host where
  "test_host =
     \<lparr>modules = (\<lambda>name.
        if name = ''data'' then Inr data_package
        else if name = ''util'' then Inr util_module
        else Inl (ModuleNotFoundError (host_text name))),
      getcwd = ''/home/user''\<rparr>"

section \<open>Properties\<close>

subsection \<open>Auxiliary facts\<close>

lemmas str_defs = startswith_def endswith_def rstrip_def sep_def
lemmas posixpath_defs = isabs_def join_def dirname_def normpath_def abspath_def
lemmas fixture_defs = utf8_file_def data_loader_def data_package_def util_loader_def
  util_module_def test_host_def

lemma replicate_2: "replicate 2 x = [x, x]"
  by (simp add: numeral_2_eq_2)

lemma startswith_dotdot_not_sep: "startswith s ''..'' \<Longrightarrow> \<not> startswith s [sep]"
  by (cases s) (auto simp: startswith_def sep_def)

lemma normpath_isabs: "isabs s \<Longrightarrow> startswith (normpath s) [sep]"
  by (auto simp: normpath_def isabs_def startswith_def Let_def replicate_2)

lemma normpath_dotdot_relative: "startswith (normpath s) ''..'' \<Longrightarrow> \<not> isabs s"
  using normpath_isabs startswith_dotdot_not_sep by blast

lemma normalize_path_absolute:
  "isabs (fspath path) \<Longrightarrow> normalize_path path = Inl (ValueError (is_absolute path))"
  by (simp add: normalize_path_def)

lemma normalize_path_traversal:
  "startswith (normpath (fspath path)) ''..'' \<Longrightarrow>
   normalize_path path = Inl (ValueError (attempts_to_traverse path))"
  by (simp add: normalize_path_def normpath_dotdot_relative)

lemma normalize_path_Inr:
  "normalize_path path = Inr np \<longleftrightarrow>
   \<not> isabs (fspath path) \<and> \<not> startswith (normpath (fspath path)) ''..'' \<and> np = normpath (fspath path)"
  by (auto simp: normalize_path_def Let_def)

lemma open_resource_invalid_path:
  "normalize_path path = Inl e \<Longrightarrow> open_resource h package_name path = ([], Inl e)"
  by (simp add: open_resource_def)

lemma open_resource_no_package:
  "normalize_path path = Inr np \<Longrightarrow> get_package h package_name = Inl e \<Longrightarrow>
   open_resource h package_name path = ([ImportModule package_name], Inl e)"
  by (simp add: open_resource_def)

lemma open_resource_get_data:
  "normalize_path path = Inr np \<Longrightarrow> get_package h package_name = Inr package \<Longrightarrow>
   open_resource h package_name path =
     ([ImportModule package_name,
       GetData (join (dirname (abspath (getcwd h) (origin (spec package)))) np)],
      (case get_data (loader (spec package))
              (join (dirname (abspath (getcwd h) (origin (spec package)))) np) of
         Inl e \<Rightarrow> Inl e | Inr data \<Rightarrow> Inr (BytesIO data)))"
  by (simp add: open_resource_def Let_def split: sum.splits)

lemma open_resource_success:
  assumes "open_resource h package_name path = (calls, Inr s)"
  shows "\<exists>np package data.
           normalize_path path = Inr np \<and> get_package h package_name = Inr package \<and>
           calls = [ImportModule package_name,
                    GetData (join (dirname (abspath (getcwd h) (origin (spec package)))) np)] \<and>
           get_data (loader (spec package))
             (join (dirname (abspath (getcwd h) (origin (spec package)))) np) = Inr data \<and>
           s = BytesIO data"
  using assms
  by (auto simp: open_resource_def Let_def split: sum.splits)

lemma get_package_handle: "get_package h (Handle m) = Inl (AttributeError (host_text ''module has no attribute startswith''))"
  by (simp add: get_package_def import_module_def)

subsection \<open>Concrete runs on the host\<close>

lemma normalize_utf8_file: "normalize_path (Str ''utf-8.file'') = Inr ''utf-8.file''"
  by (simp add: normalize_path_def str_defs posixpath_defs)

lemma get_package_data: "get_package test_host (Name ''data'') = Inr data_package"
  by (simp add: get_package_def import_module_def fixture_defs)

lemma get_package_util:
  "get_package test_host (Name ''util'') = Inl (TypeError (is_not_a_package ''util''))"
  by (simp add: get_package_def import_module_def fixture_defs)

lemma data_location:
  "join (dirname (abspath (getcwd test_host) (origin (spec data_package)))) ''utf-8.file''
     = ''/site/data/utf-8.file''"
  by (simp add: fixture_defs str_defs posixpath_defs)

lemma open_data_utf8_file:
  "open_resource test_host (Name ''data'') (Str ''utf-8.file'') =
     ([ImportModule (Name ''data''), GetData ''/site/data/utf-8.file''],
      Inr (BytesIO utf8_file))"
  by (simp add: open_resource_get_data [OF normalize_utf8_file get_package_data] data_location)
     (simp add: fixture_defs)

subsection \<open>The claims\<close>

text \<open>
  C1. A package that is already resolved can be passed to \<^verbatim>\<open>open\<close> as a handle,
  which is then used as it is, and opening by name and by handle give the same
  bytes. The code does not do this: \<^verbatim>\<open>_get_package\<close> passes whatever it
  receives to \<^verbatim>\<open>importlib.import_module\<close>, which fails on a module object. On
  the host above, opening \<^verbatim>\<open>utf-8.file\<close> of the package \<^verbatim>\<open>data\<close> by name
  returns the bytes of the file, and opening it with the module object that
  the name resolves to raises \<^verbatim>\<open>AttributeError\<close> without any call of
  \<^verbatim>\<open>get_data\<close>.
\<close>

theorem open_by_handle_fails:
  "modules test_host ''data'' = Inr data_package \<and>
   open_resource test_host (Name ''data'') (Str ''utf-8.file'') =
     ([ImportModule (Name ''data''), GetData ''/site/data/utf-8.file''],
      Inr (BytesIO utf8_file)) \<and>
   open_resource test_host (Handle data_package) (Str ''utf-8.file'') =
     ([ImportModule (Handle data_package)],
      Inl (AttributeError (host_text ''module has no attribute startswith'')))"
proof -
  have "modules test_host ''data'' = Inr data_package"
    by (simp add: test_host_def)
  moreover have "open_resource test_host (Handle data_package) (Str ''utf-8.file'') =
     ([ImportModule (Handle data_package)],
      Inl (AttributeError (host_text ''module has no attribute startswith'')))"
    by (rule open_resource_no_package [OF normalize_utf8_file get_package_handle])
  ultimately show ?thesis
    using open_data_utf8_file by simp
qed

text \<open>
  C2, as stated: the package is resolved before the path is validated, so a
  call with a non-package and an absolute or escaping path fails with
  \<^verbatim>\<open>TypeError\<close>. The code validates the path first: for the plain module
  \<^verbatim>\<open>util\<close> and an absolute path the failure is \<^verbatim>\<open>ValueError\<close>, and the import
  system is not called at all.
\<close>

theorem open_order_counterexample:
  "get_package test_host (Name ''util'') = Inl (TypeError (is_not_a_package ''util'')) \<and>
   isabs (fspath (Str ''/site/utf-8.file'')) \<and>
   open_resource test_host (Name ''util'') (Str ''/site/utf-8.file'') =
     ([], Inl (ValueError (is_absolute (Str ''/site/utf-8.file'')))) \<and>
   snd (open_resource test_host (Name ''util'') (Str ''/site/utf-8.file'')) \<noteq>
     Inl (TypeError (is_not_a_package ''util''))"
proof -
  have a: "isabs (fspath (Str ''/site/utf-8.file''))"
    by (simp add: isabs_def str_defs)
  have "open_resource test_host (Name ''util'') (Str ''/site/utf-8.file'') =
     ([], Inl (ValueError (is_absolute (Str ''/site/utf-8.file''))))"
    by (rule open_resource_invalid_path [OF normalize_path_absolute [OF a]])
  then show ?thesis
    using a get_package_util by simp
qed

text \<open>
  C2, amended: \<^verbatim>\<open>open\<close> validates and normalizes the path before it resolves
  the package. For every call whose path is absolute, or whose normalized path
  starts with \<^verbatim>\<open>..\<close>, the failure is \<^verbatim>\<open>ValueError\<close> whatever the reference
  resolves to, and neither the import system nor \<^verbatim>\<open>get_data\<close> is called.
\<close>

theorem open_validates_path_first:
  assumes "isabs (fspath path) \<or> startswith (normpath (fspath path)) ''..''"
  shows "open_resource h package_name path =
           ([], Inl (ValueError (if isabs (fspath path) then is_absolute path
                                 else attempts_to_traverse path)))"
proof (cases "isabs (fspath path)")
  case True
  then show ?thesis
    by (simp add: open_resource_invalid_path normalize_path_absolute)
next
  case False
  with assms have "startswith (normpath (fspath path)) ''..''"
    by simp
  with False show ?thesis
    by (simp add: open_resource_invalid_path normalize_path_traversal)
qed

theorem open_validates_path_first_witness:
  "(isabs (fspath (PathLike ''../../etc/passwd'')) \<or>
      startswith (normpath (fspath (PathLike ''../../etc/passwd''))) ''..'') \<and>
   get_package test_host (Name ''util'') = Inl (TypeError (is_not_a_package ''util'')) \<and>
   open_resource test_host (Name ''util'') (PathLike ''../../etc/passwd'') =
     ([], Inl (ValueError (attempts_to_traverse (PathLike ''../../etc/passwd''))))"
proof -
  have a: "isabs (fspath (PathLike ''../../etc/passwd'')) \<or>
      startswith (normpath (fspath (PathLike ''../../etc/passwd''))) ''..''"
    by (simp add: str_defs posixpath_defs)
  have b: "\<not> isabs (fspath (PathLike ''../../etc/passwd''))"
    by (simp add: isabs_def str_defs)
  show ?thesis
    using a b get_package_util
      open_validates_path_first [OF a, where h = test_host and package_name = "Name ''util''"]
    by simp
qed

text \<open>
  C3. Every successful call returns a stream over exactly the bytes that
  \<^verbatim>\<open>get_data\<close> returned for the location it was called with: reading the
  stream to its end gives these bytes, and the position of the stream is 0 when
  \<^verbatim>\<open>open\<close> returns. The stream is a value built from the bytes by \<^verbatim>\<open>BytesIO\<close>;
  after a read, seeking back to 0 and reading again gives the same bytes.
\<close>

theorem open_returns_stream_of_data:
  assumes "open_resource h package_name path = (calls, Inr s)"
  shows "tell s = 0 \<and>
         (\<exists>package location data.
            get_package h package_name = Inr package \<and>
            last calls = GetData location \<and>
            get_data (loader (spec package)) location = Inr data \<and>
            s = BytesIO data \<and> fst (read s) = data \<and>
            tell (snd (read s)) = length data \<and>
            fst (read (seek (snd (read s)) 0)) = data)"
proof -
  from open_resource_success [OF assms] obtain np package data where
    pkg: "get_package h package_name = Inr package" and
    calls: "calls = [ImportModule package_name,
                GetData (join (dirname (abspath (getcwd h) (origin (spec package)))) np)]" and
    data: "get_data (loader (spec package))
             (join (dirname (abspath (getcwd h) (origin (spec package)))) np) = Inr data" and
    s: "s = BytesIO data"
    by blast
  have "tell s = 0" "fst (read s) = data" "tell (snd (read s)) = length data"
    "fst (read (seek (snd (read s)) 0)) = data"
    by (simp_all add: s BytesIO_def tell_def read_def seek_def)
  moreover have "last calls = GetData (join (dirname (abspath (getcwd h) (origin (spec package)))) np)"
    by (simp add: calls)
  ultimately show ?thesis
    using pkg data s by blast
qed

theorem open_returns_stream_of_data_witness:
  "open_resource test_host (Name ''data'') (Str ''utf-8.file'') =
     ([ImportModule (Name ''data''), GetData ''/site/data/utf-8.file''],
      Inr (BytesIO utf8_file)) \<and>
   tell (BytesIO utf8_file) = 0 \<and>
   get_data (loader (spec data_package)) ''/site/data/utf-8.file'' = Inr utf8_file \<and>
   fst (read (BytesIO utf8_file)) = utf8_file"
proof -
  have "get_data (loader (spec data_package)) ''/site/data/utf-8.file'' = Inr utf8_file"
    by (simp add: fixture_defs)
  moreover have "fst (read (BytesIO utf8_file)) = utf8_file"
    by (simp add: BytesIO_def read_def)
  ultimately show ?thesis
    using open_returns_stream_of_data [OF open_data_utf8_file] open_data_utf8_file
    by simp
qed

text \<open>
  C4. An absolute path is rejected with \<^verbatim>\<open>ValueError\<close> for every host and every
  package reference, so whether anything exists at the path plays no role;
  no collaborator is called, in particular not \<^verbatim>\<open>get_data\<close>.
\<close>

theorem open_rejects_absolute_path:
  assumes "isabs (fspath path)"
  shows "open_resource h package_name path = ([], Inl (ValueError (is_absolute path)))"
  using assms by (simp add: open_resource_invalid_path normalize_path_absolute)

theorem open_rejects_absolute_path_witness:
  "isabs (fspath (Str ''/site/data/utf-8.file'')) \<and>
   get_data (loader (spec data_package)) ''/site/data/utf-8.file'' = Inr utf8_file \<and>
   open_resource test_host (Name ''data'') (Str ''/site/data/utf-8.file'') =
     ([], Inl (ValueError (is_absolute (Str ''/site/data/utf-8.file''))))"
proof -
  have a: "isabs (fspath (Str ''/site/data/utf-8.file''))"
    by (simp add: isabs_def str_defs)
  have "get_data (loader (spec data_package)) ''/site/data/utf-8.file'' = Inr utf8_file"
    by (simp add: fixture_defs)
  then show ?thesis
    using a open_rejects_absolute_path [OF a, where h = test_host and package_name = "Name ''data''"]
    by simp
qed

text \<open>
  C5. A path whose normalized form begins with \<^verbatim>\<open>..\<close> is rejected with
  \<^verbatim>\<open>ValueError\<close>. The test reads the normalized string only: the result is the
  same for every host, package and origin, so the depth of the anchor
  directory is never consulted.
\<close>

theorem open_rejects_parent_traversal:
  assumes "startswith (normpath (fspath path)) ''..''"
  shows "open_resource h package_name path =
           ([], Inl (ValueError (attempts_to_traverse path)))"
  using assms by (simp add: open_resource_invalid_path normalize_path_traversal)

theorem open_rejects_parent_traversal_witness:
  "startswith (normpath (fspath (Str ''../sibling/file''))) ''..'' \<and>
   normpath ''../sibling/file'' = ''../sibling/file'' \<and>
   open_resource test_host (Name ''data'') (Str ''../sibling/file'') =
     ([], Inl (ValueError (attempts_to_traverse (Str ''../sibling/file''))))"
proof -
  have n: "normpath ''../sibling/file'' = ''../sibling/file''"
    by (simp add: str_defs posixpath_defs)
  have a: "startswith (normpath (fspath (Str ''../sibling/file''))) ''..''"
    by (simp add: n) (simp add: startswith_def)
  show ?thesis
    using a n
      open_rejects_parent_traversal [OF a, where h = test_host and package_name = "Name ''data''"]
    by simp
qed

text \<open>
  C6, as stated: every reference that resolves to a module which is not a
  package makes \<^verbatim>\<open>open\<close> fail with \<^verbatim>\<open>TypeError\<close>. With a path that does not pass
  validation the failure is \<^verbatim>\<open>ValueError\<close> instead: the path is checked before
  the package.
\<close>

theorem open_non_package_counterexample:
  "modules test_host ''util'' = Inr util_module \<and>
   submodule_search_locations (spec util_module) = None \<and>
   open_resource test_host (Name ''util'') (Str ''../data/utf-8.file'') =
     ([], Inl (ValueError (attempts_to_traverse (Str ''../data/utf-8.file'')))) \<and>
   snd (open_resource test_host (Name ''util'') (Str ''../data/utf-8.file'')) \<noteq>
     Inl (TypeError (is_not_a_package ''util''))"
proof -
  have "startswith (normpath (fspath (Str ''../data/utf-8.file''))) ''..''"
    by (simp add: str_defs posixpath_defs)
  then have "open_resource test_host (Name ''util'') (Str ''../data/utf-8.file'') =
     ([], Inl (ValueError (attempts_to_traverse (Str ''../data/utf-8.file''))))"
    by (simp add: open_resource_invalid_path normalize_path_traversal)
  then show ?thesis
    by (simp add: fixture_defs)
qed

text \<open>
  C6, amended: for every package name that the host resolves to a module whose
  \<^verbatim>\<open>submodule_search_locations\<close> is \<^verbatim>\<open>None\<close>, and every path that passes
  validation, \<^verbatim>\<open>open\<close> fails with \<^verbatim>\<open>TypeError\<close>. \<^verbatim>\<open>get_data\<close> is not called, so a
  file that exists next to the module makes no difference.
\<close>

theorem open_rejects_non_package:
  assumes "modules h name = Inr m"
    and "submodule_search_locations (spec m) = None"
    and "normalize_path path = Inr np"
  shows "open_resource h (Name name) path =
           ([ImportModule (Name name)], Inl (TypeError (is_not_a_package name)))"
proof -
  have "get_package h (Name name) = Inl (TypeError (is_not_a_package name))"
    using assms(1,2) by (simp add: get_package_def import_module_def)
  with assms(3) show ?thesis
    by (rule open_resource_no_package)
qed

theorem open_rejects_non_package_witness:
  "modules test_host ''util'' = Inr util_module \<and>
   submodule_search_locations (spec util_module) = None \<and>
   normalize_path (Str ''utf-8.file'') = Inr ''utf-8.file'' \<and>
   get_data (loader (spec util_module))
     (join (dirname (abspath (getcwd test_host) (origin (spec util_module)))) ''utf-8.file'')
     = Inr utf8_file \<and>
   open_resource test_host (Name ''util'') (Str ''utf-8.file'') =
     ([ImportModule (Name ''util'')], Inl (TypeError (is_not_a_package ''util'')))"
proof -
  have a: "modules test_host ''util'' = Inr util_module"
    by (simp add: test_host_def)
  have b: "submodule_search_locations (spec util_module) = None"
    by (simp add: util_module_def)
  have "get_data (loader (spec util_module))
     (join (dirname (abspath (getcwd test_host) (origin (spec util_module)))) ''utf-8.file'')
     = Inr utf8_file"
    by (simp add: fixture_defs str_defs posixpath_defs)
  then show ?thesis
    using a b normalize_utf8_file open_rejects_non_package [OF a b normalize_utf8_file]
    by simp
qed

text \<open>
  C7. In every successful call, \<^verbatim>\<open>get_data\<close> is called once, with the directory
  of the absolute form of the package's origin joined with the normalized
  path that \<^verbatim>\<open>_normalize_path\<close> returned.
\<close>

theorem open_get_data_location:
  assumes "open_resource h package_name path = (calls, Inr s)"
  shows "\<exists>package normalized_path.
           get_package h package_name = Inr package \<and>
           normalize_path path = Inr normalized_path \<and>
           normalized_path = normpath (fspath path) \<and>
           calls = [ImportModule package_name,
                    GetData (join (dirname (abspath (getcwd h) (origin (spec package))))
                               normalized_path)]"
proof -
  from open_resource_success [OF assms] obtain np package where
    "normalize_path path = Inr np" and "get_package h package_name = Inr package" and
    "calls = [ImportModule package_name,
              GetData (join (dirname (abspath (getcwd h) (origin (spec package)))) np)]"
    by blast
  moreover from this(1) have "np = normpath (fspath path)"
    by (simp add: normalize_path_Inr)
  ultimately show ?thesis
    by blast
qed

theorem open_get_data_location_witness:
  "open_resource test_host (Name ''data'') (Str ''utf-8.file'') =
     ([ImportModule (Name ''data''), GetData ''/site/data/utf-8.file''],
      Inr (BytesIO utf8_file)) \<and>
   abspath (getcwd test_host) (origin (spec data_package)) = ''/site/data/__init__.py'' \<and>
   dirname ''/site/data/__init__.py'' = ''/site/data'' \<and>
   normpath (fspath (Str ''utf-8.file'')) = ''utf-8.file'' \<and>
   join ''/site/data'' ''utf-8.file'' = ''/site/data/utf-8.file''"
proof -
  have "abspath (getcwd test_host) (origin (spec data_package)) = ''/site/data/__init__.py''"
    by (simp add: fixture_defs str_defs posixpath_defs)
  moreover have "dirname ''/site/data/__init__.py'' = ''/site/data''"
    by (simp add: str_defs posixpath_defs)
  moreover have "normpath (fspath (Str ''utf-8.file'')) = ''utf-8.file''"
    by (simp add: str_defs posixpath_defs)
  moreover have "join ''/site/data'' ''utf-8.file'' = ''/site/data/utf-8.file''"
    by (simp add: str_defs posixpath_defs)
  ultimately show ?thesis
    using open_get_data_location [OF open_data_utf8_file] open_data_utf8_file
    by simp
qed

text \<open>
  C8. When \<^verbatim>\<open>get_data\<close> is called and raises, \<^verbatim>\<open>open\<close> raises the very same
  exception; and whenever \<^verbatim>\<open>open\<close> raises, no stream is returned.
\<close>

theorem open_propagates_get_data_failure:
  assumes "get_package h package_name = Inr package"
    and "GetData location \<in> set (fst (open_resource h package_name path))"
    and "get_data (loader (spec package)) location = Inl e"
  shows "snd (open_resource h package_name path) = Inl e \<and>
         (\<forall>s. snd (open_resource h package_name path) \<noteq> Inr s)"
proof (cases "normalize_path path")
  case (Inl e')
  with assms(2) show ?thesis
    by (simp add: open_resource_invalid_path)
next
  case (Inr np)
  from assms(2) have "location = join (dirname (abspath (getcwd h) (origin (spec package)))) np"
    by (simp add: open_resource_get_data [OF Inr assms(1)])
  with assms(3) show ?thesis
    by (simp add: open_resource_get_data [OF Inr assms(1)])
qed

theorem open_propagates_get_data_failure_witness:
  "get_package test_host (Name ''data'') = Inr data_package \<and>
   GetData ''/site/data/missing.file''
     \<in> set (fst (open_resource test_host (Name ''data'') (Str ''missing.file''))) \<and>
   get_data (loader (spec data_package)) ''/site/data/missing.file''
     = Inl (FileNotFoundError (host_text ''/site/data/missing.file'')) \<and>
   snd (open_resource test_host (Name ''data'') (Str ''missing.file''))
     = Inl (FileNotFoundError (host_text ''/site/data/missing.file''))"
proof -
  have n: "normalize_path (Str ''missing.file'') = Inr ''missing.file''"
    by (simp add: normalize_path_def str_defs posixpath_defs)
  have l: "join (dirname (abspath (getcwd test_host) (origin (spec data_package)))) ''missing.file''
     = ''/site/data/missing.file''"
    by (simp add: fixture_defs str_defs posixpath_defs)
  have b: "GetData ''/site/data/missing.file''
     \<in> set (fst (open_resource test_host (Name ''data'') (Str ''missing.file'')))"
    by (simp add: open_resource_get_data [OF n get_package_data] l)
  have c: "get_data (loader (spec data_package)) ''/site/data/missing.file''
     = Inl (FileNotFoundError (host_text ''/site/data/missing.file''))"
    by (simp add: fixture_defs)
  show ?thesis
    using get_package_data b c open_propagates_get_data_failure [OF get_package_data b c]
    by simp
qed

text \<open>
  C9. A path given as a string and the same path given as a path-like object
  lead to the same collaborator calls and the same observable result: the same
  bytes, or an exception of the same class. (The text of a \<^verbatim>\<open>ValueError\<close>
  formats the argument as it was passed, so only the messages can differ.)
\<close>

theorem open_path_type_equivalence:
  "fst (open_resource h package_name (PathLike p)) = fst (open_resource h package_name (Str p)) \<and>
   outcome (snd (open_resource h package_name (PathLike p)))
     = outcome (snd (open_resource h package_name (Str p)))"
proof (cases "isabs p \<or> startswith (normpath p) ''..''")
  case True
  have "\<exists>m. normalize_path (PathLike p) = Inl (ValueError m)"
    using True by (cases "isabs p") (simp_all add: normalize_path_def)
  moreover have "\<exists>m. normalize_path (Str p) = Inl (ValueError m)"
    using True by (cases "isabs p") (simp_all add: normalize_path_def)
  ultimately show ?thesis
    by (auto simp: open_resource_invalid_path outcome_def)
next
  case False
  then have "normalize_path (PathLike p) = Inr (normpath p)"
    and "normalize_path (Str p) = Inr (normpath p)"
    by (simp_all add: normalize_path_def)
  then show ?thesis
    by (simp add: open_resource_def)
qed

theorem open_path_type_equivalence_witness:
  "outcome (snd (open_resource test_host (Name ''data'') (PathLike ''utf-8.file'')))
     = Inr utf8_file"
proof -
  have "outcome (snd (open_resource test_host (Name ''data'') (Str ''utf-8.file''))) = Inr utf8_file"
    by (simp add: open_data_utf8_file outcome_def read_def BytesIO_def)
  with open_path_type_equivalence [of test_host "Name ''data''" "''utf-8.file''"]
  show ?thesis
    by simp
qed

text \<open>
  C10. The traversal check is a test on the first two characters of the
  normalized string: every relative path whose normalized form starts with
  \<^verbatim>\<open>..\<close> is rejected with \<^verbatim>\<open>ValueError\<close>. That includes \<^verbatim>\<open>..hidden/file\<close>, whose
  first segment is \<^verbatim>\<open>..hidden\<close> and which lies inside the anchor directory.
\<close>

theorem traversal_check_is_string_prefix:
  assumes "\<not> isabs (fspath path)"
    and "take 2 (normpath (fspath path)) = ''..''"
  shows "normalize_path path = Inl (ValueError (attempts_to_traverse path)) \<and>
         open_resource h package_name path =
           ([], Inl (ValueError (attempts_to_traverse path)))"
proof -
  from assms(2) have "startswith (normpath (fspath path)) ''..''"
    by (simp add: startswith_def numeral_2_eq_2)
  with assms(1) have "normalize_path path = Inl (ValueError (attempts_to_traverse path))"
    by (simp add: normalize_path_def)
  then show ?thesis
    by (simp add: open_resource_invalid_path)
qed

theorem traversal_check_is_string_prefix_witness:
  "\<not> isabs (fspath (Str ''..hidden/file'')) \<and>
   take 2 (normpath (fspath (Str ''..hidden/file''))) = ''..'' \<and>
   str_split sep (normpath ''..hidden/file'') = [''..hidden'', ''file''] \<and>
   normpath (join ''/site/data'' ''..hidden/file'') = ''/site/data/..hidden/file'' \<and>
   open_resource test_host (Name ''data'') (Str ''..hidden/file'') =
     ([], Inl (ValueError (attempts_to_traverse (Str ''..hidden/file''))))"
proof -
  have n: "normpath ''..hidden/file'' = ''..hidden/file''"
    by (simp add: str_defs posixpath_defs)
  have a: "\<not> isabs (fspath (Str ''..hidden/file''))"
    by (simp add: isabs_def str_defs)
  have b: "take 2 (normpath (fspath (Str ''..hidden/file''))) = ''..''"
    by (simp add: n)
  have c: "str_split sep (normpath ''..hidden/file'') = [''..hidden'', ''file'']"
    by (simp add: n) (simp add: sep_def)
  have d: "normpath (join ''/site/data'' ''..hidden/file'') = ''/site/data/..hidden/file''"
    by (simp add: str_defs posixpath_defs)
  show ?thesis
    using a b c d
      traversal_check_is_string_prefix [OF a b, where h = test_host and package_name = "Name ''data''"]
    by simp
qed

end
